theory Spec2Isabelle
  imports Main "HOL-Library.Char_ord" "HOL-Library.List_Lexorder" "HOL-Library.Sublist"
begin

section \<open>Values, errors and strings\<close>

text \<open>
  The sort-order module of maflib (\<^verbatim>\<open>maflib/sort_order.py\<close>) compares attribute values of
  records: contig names, positions and barcodes, any of which may be \<^verbatim>\<open>None\<close>. Python
  values are dynamically typed, so they are embedded as one datatype; an ordering
  comparison between an integer and a string raises \<^verbatim>\<open>TypeError\<close>, as Python 3 does.
\<close>

datatype pyval = PNone | PInt int | PStr string

datatype error =
    ValueError string
  | NotImplementedError string
  | TypeError
  | AttributeError
  | StopIteration

text \<open>The line feed used in the order-violation message.\<close>

definition newline :: string where
  "newline = [CHR 0x0A]"

text \<open>The apostrophe that the messages put around a name.\<close>

definition quote :: string where
  "quote = [CHR 0x27]"

text \<open>\<^verbatim>\<open>sep.join(xs)\<close>.\<close>

fun str_join :: "string \<Rightarrow> string list \<Rightarrow> string" where
  "str_join sep [] = []"
| "str_join sep [x] = x"
| "str_join sep (x # y # ys) = x @ sep @ str_join sep (y # ys)"

text \<open>Decimal rendering of an integer, as \<^verbatim>\<open>str(i)\<close> gives it.\<close>

fun str_nat :: "nat \<Rightarrow> string" where
  "str_nat n =
     (if n < 10 then [char_of (48 + n)]
      else str_nat (n div 10) @ [char_of (48 + n mod 10)])"

declare str_nat.simps [simp del]

definition str_int :: "int \<Rightarrow> string" where
  "str_int i = (if i < 0 then CHR ''-'' # str_nat (nat (- i)) else str_nat (nat i))"

text \<open>\<^verbatim>\<open>"%s" % v\<close>: the string form of a value.\<close>

fun py_str :: "pyval \<Rightarrow> string" where
  "py_str PNone = ''None''"
| "py_str (PInt i) = str_int i"
| "py_str (PStr s) = s"

text \<open>
  \<^verbatim>\<open>this < that\<close> and \<^verbatim>\<open>this > that\<close> on two values that are not \<^verbatim>\<open>None\<close>: integers
  compare numerically, strings lexicographically by character code, and an integer against
  a string raises.
\<close>

fun py_less :: "pyval \<Rightarrow> pyval \<Rightarrow> error + bool" where
  "py_less (PInt a) (PInt b) = Inr (a < b)"
| "py_less (PStr a) (PStr b) = Inr (a < b)"
| "py_less _ _ = Inl TypeError"

definition py_greater :: "pyval \<Rightarrow> pyval \<Rightarrow> error + bool" where
  "py_greater this that = py_less that this"

section \<open>The registry of sort orders\<close>

text \<open>
  The four sort-order classes, and \<^verbatim>\<open>SortOrder.all()\<close>, \<^verbatim>\<open>name()\<close> and
  \<^verbatim>\<open>SortOrder.find\<close>, which work on classes and not on instances.
\<close>

datatype SortOrderClass = Unknown | Unsorted | BarcodesAndCoordinate | Coordinate

fun name :: "SortOrderClass \<Rightarrow> string" where
  "name Unknown = ''Unknown''"
| "name Unsorted = ''Unsorted''"
| "name BarcodesAndCoordinate = ''BarcodesAndCoordinate''"
| "name Coordinate = ''Coordinate''"

definition all :: "SortOrderClass list" where
  "all = [Unknown, Unsorted, BarcodesAndCoordinate, Coordinate]"

text \<open>
  \<^verbatim>\<open>next(iter([so for so in SortOrder.all() if so.name() == sort_order_name]), None)\<close>
  is the first class of the filtered list; when there is none, the \<^verbatim>\<open>ValueError\<close> carries
  the requested name and the names of all classes joined by a comma and a space.
\<close>

definition find_order :: "string \<Rightarrow> error + SortOrderClass" where
  "find_order sort_order_name =
     (case filter (\<lambda>so. name so = sort_order_name) all of
        so # _ \<Rightarrow> Inr so
      | [] \<Rightarrow>
          Inl (ValueError (''Could not find sort order '' @ quote @ sort_order_name
                 @ quote @ '', options: '' @ str_join '', '' (map name all))))"

section \<open>Sort keys\<close>

text \<open>
  \<^verbatim>\<open>SortOrderKey.compare\<close>: the three-way comparison of two attribute values. The
  \<^verbatim>\<open>None\<close> tests come first; otherwise \<^verbatim>\<open>(this > that) - (this < that)\<close>, which
  evaluates \<^verbatim>\<open>this > that\<close> before \<^verbatim>\<open>this < that\<close>.
\<close>

definition compare :: "pyval \<Rightarrow> pyval \<Rightarrow> error + int" where
  "compare this that =
     (if this = PNone \<and> that = PNone then Inr 0
      else if this = PNone then Inr 1
      else if that = PNone then Inr (- 1)
      else (case py_greater this that of
              Inl e \<Rightarrow> Inl e
            | Inr gt \<Rightarrow>
                (case py_less this that of
                   Inl e \<Rightarrow> Inl e
                 | Inr lt \<Rightarrow> Inr ((if gt then 1 else 0) - (if lt then 1 else 0)))))"

text \<open>
  Two values can be ordered by \<^verbatim>\<open>compare\<close> when one of them is \<^verbatim>\<open>None\<close> or both
  are of one type. The data model of the records asks this of their starts and ends.
\<close>

fun comparable :: "pyval \<Rightarrow> pyval \<Rightarrow> bool" where
  "comparable PNone _ = True"
| "comparable _ PNone = True"
| "comparable (PInt _) (PInt _) = True"
| "comparable (PStr _) (PStr _) = True"
| "comparable _ _ = False"

text \<open>
  \<^verbatim>\<open>Locatable\<close>: an object exposing \<^verbatim>\<open>chromosome\<close>, \<^verbatim>\<open>start\<close> and \<^verbatim>\<open>end\<close>
  (\<open>end_pos\<close> here, \<open>end\<close> being reserved). The class lives in \<^verbatim>\<open>maflib/locatable.py\<close>,
  outside the sort-order module; its constructor stores the three values it is given.
\<close>

record locatable =
  chromosome :: pyval
  start :: pyval
  end_pos :: pyval

text \<open>
  A record handed to a key function or to the checker. What the module uses of it:
  the name of its class, its \<^verbatim>\<open>Locatable\<close> attributes (absent when the class does not
  derive from \<^verbatim>\<open>Locatable\<close>), its truth value \<^verbatim>\<open>bool(record)\<close> (a record class that
  defines \<^verbatim>\<open>__len__\<close> or \<^verbatim>\<open>__bool__\<close> decides it; a plain object is true), the accessor
  \<^verbatim>\<open>record.value(name)\<close> and \<^verbatim>\<open>str(record)\<close>. The record classes are not part of the
  module, so these are fields.
\<close>

record py_record =
  class_name :: string
  as_locatable :: "locatable option"
  truthy :: bool
  value_of :: "string \<Rightarrow> pyval"
  str_of :: string

text \<open>
  \<^verbatim>\<open>xs.index(v)\<close>: the position of the first element equal to \<open>v\<close>; \<open>None\<close> stands
  for the \<^verbatim>\<open>ValueError\<close> that the caller catches.
\<close>

fun list_index :: "'a list \<Rightarrow> 'a \<Rightarrow> nat option" where
  "list_index [] v = None"
| "list_index (x # xs) v = (if x = v then Some 0 else map_option Suc (list_index xs v))"

text \<open>
  \<^verbatim>\<open>_CoordinateKey.__init__(record, contigs)\<close>. The key is itself a \<^verbatim>\<open>Locatable\<close> whose
  chromosome is the rank of the record's chromosome in \<open>contigs\<close> when \<open>contigs\<close> is
  true (neither \<^verbatim>\<open>None\<close> nor empty), and the record's chromosome as it is otherwise.
\<close>

definition CoordinateKey_init :: "py_record \<Rightarrow> string list option \<Rightarrow> error + locatable" where
  "CoordinateKey_init record contigs =
     (case as_locatable record of
        None \<Rightarrow>
          Inl (ValueError (''Record of type '' @ quote @ class_name record @ quote
                 @ '' is not a subclass of '' @ quote @ ''Locatable'' @ quote))
      | Some loc \<Rightarrow>
          (case (case contigs of
                   None \<Rightarrow> Inr (chromosome loc)
                 | Some cs \<Rightarrow>
                     if cs = [] then Inr (chromosome loc)
                     else (case list_index (map PStr cs) (chromosome loc) of
                             Some i \<Rightarrow> Inr (PInt (int i))
                           | None \<Rightarrow>
                               Inl (ValueError (''Could not find contig '' @ quote
                                      @ py_str (chromosome loc) @ quote
                                      @ '' in list of contigs: '' @ str_join '', '' cs)))) of
             Inl e \<Rightarrow> Inl e
           | Inr chrom \<Rightarrow>
               Inr \<lparr>chromosome = chrom, start = start loc, end_pos = end_pos loc\<rparr>))"

text \<open>
  \<^verbatim>\<open>_CoordinateKey.__cmp__\<close>: chromosome, then start, then end; a later field is compared
  only when the difference so far is 0. It reads the three \<^verbatim>\<open>Locatable\<close> attributes only,
  so it applies to keys of the subclass too.
\<close>

definition CoordinateKey_cmp ::
    "'a locatable_scheme \<Rightarrow> 'b locatable_scheme \<Rightarrow> error + int" where
  "CoordinateKey_cmp self other =
     (case compare (chromosome self) (chromosome other) of
        Inl e \<Rightarrow> Inl e
      | Inr diff \<Rightarrow>
          (case (if diff = 0 then compare (start self) (start other) else Inr diff) of
             Inl e \<Rightarrow> Inl e
           | Inr diff \<Rightarrow>
               (if diff = 0 then compare (end_pos self) (end_pos other) else Inr diff)))"

text \<open>
  \<^verbatim>\<open>_BarcodesAndCoordinateKey\<close> extends \<^verbatim>\<open>_CoordinateKey\<close> by the two barcodes, which
  its constructor reads from the record before it runs the parent's constructor.
\<close>

record barcoded = locatable +
  tumor_barcode :: pyval
  normal_barcode :: pyval

definition BarcodesAndCoordinateKey_init ::
    "py_record \<Rightarrow> string list option \<Rightarrow> error + barcoded" where
  "BarcodesAndCoordinateKey_init record contigs =
     (let tumor = value_of record ''Tumor_Sample_Barcode'';
          normal = value_of record ''Matched_Norm_Sample_Barcode''
      in case CoordinateKey_init record contigs of
           Inl e \<Rightarrow> Inl e
         | Inr k \<Rightarrow>
             Inr \<lparr>chromosome = chromosome k, start = start k, end_pos = end_pos k,
                  tumor_barcode = tumor, normal_barcode = normal\<rparr>)"

text \<open>
  \<^verbatim>\<open>_BarcodesAndCoordinateKey.__cmp__\<close>: tumor barcode, then normal barcode, then the
  parent's comparison.
\<close>

definition BarcodesAndCoordinateKey_cmp :: "barcoded \<Rightarrow> barcoded \<Rightarrow> error + int" where
  "BarcodesAndCoordinateKey_cmp self other =
     (case compare (tumor_barcode self) (tumor_barcode other) of
        Inl e \<Rightarrow> Inl e
      | Inr diff \<Rightarrow>
          (case (if diff = 0 then compare (normal_barcode self) (normal_barcode other)
                 else Inr diff) of
             Inl e \<Rightarrow> Inl e
           | Inr diff \<Rightarrow>
               (if diff = 0 then CoordinateKey_cmp self other else Inr diff)))"

text \<open>
  A key object is an instance of one of the two key classes. \<^verbatim>\<open>__cmp__\<close> is dispatched
  on the class of the left operand; the barcode comparison reads \<^verbatim>\<open>other.tumor_barcode\<close>,
  which a plain coordinate key does not have.
\<close>

datatype SortOrderKey = CoordinateKey locatable | BarcodesAndCoordinateKey barcoded

fun cmp :: "SortOrderKey \<Rightarrow> SortOrderKey \<Rightarrow> error + int" where
  "cmp (CoordinateKey self) (CoordinateKey other) = CoordinateKey_cmp self other"
| "cmp (CoordinateKey self) (BarcodesAndCoordinateKey other) = CoordinateKey_cmp self other"
| "cmp (BarcodesAndCoordinateKey self) (BarcodesAndCoordinateKey other) =
     BarcodesAndCoordinateKey_cmp self other"
| "cmp (BarcodesAndCoordinateKey self) (CoordinateKey other) = Inl AttributeError"

text \<open>\<^verbatim>\<open>SortOrderKey.__lt__\<close>: \<^verbatim>\<open>self.__cmp__(other) < 0\<close>.\<close>

definition lt :: "SortOrderKey \<Rightarrow> SortOrderKey \<Rightarrow> error + bool" where
  "lt self other = (case cmp self other of Inl e \<Rightarrow> Inl e | Inr diff \<Rightarrow> Inr (diff < 0))"

section \<open>Sort-order instances\<close>

text \<open>
  An instance of a sort-order class. \<open>order_contigs\<close> is the attribute \<^verbatim>\<open>_contigs\<close> of
  \<^verbatim>\<open>Coordinate\<close> and \<^verbatim>\<open>BarcodesAndCoordinate\<close>; the other two classes ignore whatever
  their constructor is given and have no such attribute.
\<close>

record SortOrder =
  order_class :: SortOrderClass
  order_contigs :: "string list option"

definition Unknown_init :: SortOrder where
  "Unknown_init = \<lparr>order_class = Unknown, order_contigs = None\<rparr>"

definition Unsorted_init :: SortOrder where
  "Unsorted_init = \<lparr>order_class = Unsorted, order_contigs = None\<rparr>"

text \<open>\<^verbatim>\<open>line.rstrip("\r\n")\<close> and \<^verbatim>\<open>line.split("\t")[0]\<close>.\<close>

definition rstrip_crlf :: "string \<Rightarrow> string" where
  "rstrip_crlf line = rev (dropWhile (\<lambda>c. c = CHR 0x0D \<or> c = CHR 0x0A) (rev line))"

definition first_column :: "string \<Rightarrow> string" where
  "first_column line = takeWhile (\<lambda>c. c \<noteq> CHR 0x09) line"

text \<open>
  The body of \<^verbatim>\<open>Coordinate.__init__(fasta_index, contigs)\<close>, which computes
  \<^verbatim>\<open>_contigs\<close>. \<open>fasta_index\<close> is \<open>None\<close> for an argument that is false (absent or
  the empty path) and otherwise the lines that reading the file at that path yields;
  opening the file is outside this model. An explicit list is copied only when it is true,
  that is, not empty.
\<close>

definition Coordinate_contigs ::
    "string list option \<Rightarrow> string list option \<Rightarrow> string list option" where
  "Coordinate_contigs fasta_index contigs =
     (case fasta_index of
        Some lines \<Rightarrow> Some (map (\<lambda>line. first_column (rstrip_crlf line)) lines)
      | None \<Rightarrow>
          (case contigs of
             None \<Rightarrow> None
           | Some cs \<Rightarrow> if cs = [] then None else Some cs))"

definition Coordinate_init :: "string list option \<Rightarrow> string list option \<Rightarrow> SortOrder" where
  "Coordinate_init fasta_index contigs =
     \<lparr>order_class = Coordinate, order_contigs = Coordinate_contigs fasta_index contigs\<rparr>"

text \<open>\<^verbatim>\<open>BarcodesAndCoordinate.__init__\<close> passes its arguments to the parent's.\<close>

definition BarcodesAndCoordinate_init ::
    "string list option \<Rightarrow> string list option \<Rightarrow> SortOrder" where
  "BarcodesAndCoordinate_init fasta_index contigs =
     \<lparr>order_class = BarcodesAndCoordinate,
      order_contigs = Coordinate_contigs fasta_index contigs\<rparr>"

text \<open>
  \<^verbatim>\<open>sort_key()\<close>: the two declarative orders raise \<^verbatim>\<open>NotImplementedError\<close>; the
  coordinate orders return the function that builds a key of their key class from a record.
\<close>

definition sort_key :: "SortOrder \<Rightarrow> error + (py_record \<Rightarrow> error + SortOrderKey)" where
  "sort_key self =
     (case order_class self of
        Unknown \<Rightarrow> Inl (NotImplementedError ''Sorting not supported for Unknown order.'')
      | Unsorted \<Rightarrow> Inl (NotImplementedError ''Sorting not supported for Unsorted order.'')
      | Coordinate \<Rightarrow>
          Inr (\<lambda>record. map_sum id CoordinateKey
                 (CoordinateKey_init record (order_contigs self)))
      | BarcodesAndCoordinate \<Rightarrow>
          Inr (\<lambda>record. map_sum id BarcodesAndCoordinateKey
                 (BarcodesAndCoordinateKey_init record (order_contigs self))))"

text \<open>\<^verbatim>\<open>sort_order.sort_key()(record)\<close>: the key of a record under a sort order.\<close>

definition key_of :: "SortOrder \<Rightarrow> py_record \<Rightarrow> error + SortOrderKey" where
  "key_of sort_order record =
     (case sort_key sort_order of Inl e \<Rightarrow> Inl e | Inr f \<Rightarrow> f record)"

section \<open>The checker\<close>

text \<open>
  \<^verbatim>\<open>SortOrderChecker\<close>: the last record seen and the key function. The constructor
  catches \<^verbatim>\<open>NotImplementedError\<close> only, and then leaves the key function unset.
\<close>

record SortOrderChecker =
  last_rec :: "py_record option"
  sort_f :: "(py_record \<Rightarrow> error + SortOrderKey) option"

definition SortOrderChecker_init :: "SortOrder \<Rightarrow> error + SortOrderChecker" where
  "SortOrderChecker_init sort_order =
     (case sort_key sort_order of
        Inr f \<Rightarrow> Inr \<lparr>last_rec = None, sort_f = Some f\<rparr>
      | Inl (NotImplementedError _) \<Rightarrow> Inr \<lparr>last_rec = None, sort_f = None\<rparr>
      | Inl e \<Rightarrow> Inl e)"

text \<open>
  \<^verbatim>\<open>__iadd__\<close> mutates the checker, so the model returns the outcome of the call together
  with the checker afterwards. The guard \<^verbatim>\<open>if self._last_rec and self._sort_f\<close> tests truth
  values: \<^verbatim>\<open>_last_rec\<close> passes when it holds a record that is true, \<^verbatim>\<open>_sort_f\<close> when it
  holds a function. The key of the new record is built before the key of the last one, and
  \<^verbatim>\<open>_last_rec\<close> is assigned only after the comparison has passed.
\<close>

definition iadd :: "py_record \<Rightarrow> SortOrderChecker \<Rightarrow> (error + unit) \<times> SortOrderChecker" where
  "iadd rec self =
     (case (last_rec self, sort_f self) of
        (Some prev, Some f) \<Rightarrow>
          if truthy prev then
            (case f rec of
               Inl e \<Rightarrow> (Inl e, self)
             | Inr rec_key \<Rightarrow>
                 (case f prev of
                    Inl e \<Rightarrow> (Inl e, self)
                  | Inr last_rec_key \<Rightarrow>
                      (case lt rec_key last_rec_key of
                         Inl e \<Rightarrow> (Inl e, self)
                       | Inr out_of_order \<Rightarrow>
                           if out_of_order then
                             (Inl (ValueError (''Records out of order'' @ newline
                                     @ str_of prev @ newline @ str_of rec)), self)
                           else (Inr (), self\<lparr>last_rec := Some rec\<rparr>))))
          else (Inr (), self\<lparr>last_rec := Some rec\<rparr>)
      | _ \<Rightarrow> (Inr (), self\<lparr>last_rec := Some rec\<rparr>))"

text \<open>\<^verbatim>\<open>add\<close> is \<^verbatim>\<open>__iadd__\<close>.\<close>

definition add :: "py_record \<Rightarrow> SortOrderChecker \<Rightarrow> (error + unit) \<times> SortOrderChecker" where
  "add rec self = iadd rec self"

text \<open>
  Adding the records of a list one after the other; the first call that raises ends the
  run, as an exception leaving the caller's loop does.
\<close>

fun add_all :: "py_record list \<Rightarrow> SortOrderChecker \<Rightarrow> (error + unit) \<times> SortOrderChecker" where
  "add_all [] self = (Inr (), self)"
| "add_all (rec # recs) self =
     (case add rec self of
        (Inl e, self') \<Rightarrow> (Inl e, self')
      | (Inr _, self') \<Rightarrow> add_all recs self')"

section \<open>The enforcing iterator\<close>

text \<open>
  \<^verbatim>\<open>SortOrderEnforcingIterator\<close> holds its own checker and the wrapped iterator. The
  wrapped iterator is modelled by the records it has still to produce: \<^verbatim>\<open>next\<close> on it
  removes the first one, and raises \<^verbatim>\<open>StopIteration\<close> when none is left.
\<close>

record SortOrderEnforcingIterator =
  checker :: SortOrderChecker
  iter :: "py_record list"

definition SortOrderEnforcingIterator_init ::
    "py_record list \<Rightarrow> SortOrder \<Rightarrow> error + SortOrderEnforcingIterator" where
  "SortOrderEnforcingIterator_init it sort_order =
     (case SortOrderChecker_init sort_order of
        Inl e \<Rightarrow> Inl e
      | Inr c \<Rightarrow> Inr \<lparr>checker = c, iter = it\<rparr>)"

text \<open>
  \<^verbatim>\<open>__next__\<close>: take the next record of the wrapped iterator, pass it to the checker,
  return it. The wrapped iterator has advanced even when the checker raises.
\<close>

definition next_record ::
    "SortOrderEnforcingIterator \<Rightarrow> (error + py_record) \<times> SortOrderEnforcingIterator" where
  "next_record self =
     (case iter self of
        [] \<Rightarrow> (Inl StopIteration, self)
      | rec # rest \<Rightarrow>
          (case add rec (checker self) of
             (Inl e, c) \<Rightarrow> (Inl e, self\<lparr>checker := c, iter := rest\<rparr>)
           | (Inr _, c) \<Rightarrow> (Inr rec, self\<lparr>checker := c, iter := rest\<rparr>)))"

text \<open>
  Consuming the iterator, as a \<^verbatim>\<open>for\<close> loop over it does: the records yielded up to the
  first exception, that exception (\<^verbatim>\<open>StopIteration\<close> for a normal end), and the iterator
  afterwards.
\<close>

function consume ::
    "SortOrderEnforcingIterator \<Rightarrow> py_record list \<times> error \<times> SortOrderEnforcingIterator" where
  "consume self =
     (case next_record self of
        (Inl e, self') \<Rightarrow> ([], e, self')
      | (Inr rec, self') \<Rightarrow>
          (case consume self' of (recs, e, self'') \<Rightarrow> (rec # recs, e, self'')))"
  by pat_completeness auto
termination
  by (relation "measure (\<lambda>self. length (iter self))")
     (auto simp: next_record_def split: list.splits prod.splits sum.splits)

declare consume.simps [simp del]

text \<open>
  A list of records is in the order of a key function when no record has a key less than
  the key of the record before it.
\<close>

fun in_order :: "(py_record \<Rightarrow> error + SortOrderKey) \<Rightarrow> py_record list \<Rightarrow> bool" where
  "in_order f [] = True"
| "in_order f [r] = True"
| "in_order f (p # r # rs) =
     ((case f r of
         Inl e \<Rightarrow> False
       | Inr rec_key \<Rightarrow>
           (case f p of
              Inl e \<Rightarrow> False
            | Inr last_rec_key \<Rightarrow> lt rec_key last_rec_key = Inr False))
      \<and> in_order f (r # rs))"

text \<open>
  The two ways the module is driven from outside. \<open>check_records\<close>: build a checker for
  a sort order and add the records of a list in turn; the result is the first exception,
  if any. \<open>enforce\<close>: wrap a list of records in an enforcing iterator for a sort order
  and consume it; the result is the records yielded and the exception that ended the loop.
\<close>

definition check_records :: "SortOrder \<Rightarrow> py_record list \<Rightarrow> error + unit" where
  "check_records sort_order recs =
     (case SortOrderChecker_init sort_order of
        Inl e \<Rightarrow> Inl e
      | Inr c \<Rightarrow> fst (add_all recs c))"

definition enforce :: "py_record list \<Rightarrow> SortOrder \<Rightarrow> py_record list \<times> error" where
  "enforce recs sort_order =
     (case SortOrderEnforcingIterator_init recs sort_order of
        Inl e \<Rightarrow> ([], e)
      | Inr it \<Rightarrow> (case consume it of (out, e, _) \<Rightarrow> (out, e)))"

section \<open>Example records\<close>

text \<open>
  A record of a \<^verbatim>\<open>Locatable\<close> class with a contig name, integer positions and the two
  barcodes, for the concrete instances of the properties below. \<open>nonempty\<close> is its truth
  value.
\<close>

definition example_record ::
    "string \<Rightarrow> int \<Rightarrow> int \<Rightarrow> string \<Rightarrow> string \<Rightarrow> bool \<Rightarrow> py_record" where
  "example_record chrom s e tumor normal nonempty =
     \<lparr>class_name = ''MafRecord'',
      as_locatable = Some \<lparr>chromosome = PStr chrom, start = PInt s, end_pos = PInt e\<rparr>,
      truthy = nonempty,
      value_of = (\<lambda>field. if field = ''Tumor_Sample_Barcode'' then PStr tumor
                          else if field = ''Matched_Norm_Sample_Barcode'' then PStr normal
                          else PNone),
      str_of = tumor @ '' '' @ chrom\<rparr>"

section \<open>Properties\<close>

subsection \<open>The comparator\<close>

lemma compare_same: "compare a a = Inr 0"
  by (cases a) (simp_all add: compare_def py_greater_def)

lemma compare_zero: "compare a b = Inr 0 \<Longrightarrow> a = b"
  by (cases a; cases b) (auto simp: compare_def py_greater_def split: if_splits)

lemma compare_values: "compare a b \<in> {Inl TypeError, Inr (- 1), Inr 0, Inr 1}"
  by (cases a; cases b) (auto simp: compare_def py_greater_def)

lemma compare_comparable:
  "comparable a b \<Longrightarrow> compare a b \<in> {Inr (- 1), Inr 0, Inr 1}"
  by (cases a; cases b) (auto simp: compare_def py_greater_def)

lemma compare_int:
  "compare (PInt m) (PInt n) = Inr (if m < n then - 1 else if m = n then 0 else 1)"
  by (simp add: compare_def py_greater_def)

lemma compare_str:
  "compare (PStr s) (PStr t) = Inr (if s < t then - 1 else if s = t then 0 else 1)"
  by (auto simp: compare_def py_greater_def)

text \<open>
  Both key comparisons are lexicographic: the first field on which the two keys differ
  decides, and the fields after it are not compared.
\<close>

lemma CoordinateKey_cmp_lex:
  "CoordinateKey_cmp a b =
     (if chromosome a \<noteq> chromosome b then compare (chromosome a) (chromosome b)
      else if start a \<noteq> start b then compare (start a) (start b)
      else compare (end_pos a) (end_pos b))"
  unfolding CoordinateKey_cmp_def
  by (auto simp: compare_same split: sum.splits dest: compare_zero)

lemma CoordinateKey_cmp_values:
  "CoordinateKey_cmp a b \<in> {Inl TypeError, Inr (- 1), Inr 0, Inr 1}"
  unfolding CoordinateKey_cmp_lex using compare_values by simp

lemma BarcodesAndCoordinateKey_cmp_lex:
  "BarcodesAndCoordinateKey_cmp a b =
     (if tumor_barcode a \<noteq> tumor_barcode b
        then compare (tumor_barcode a) (tumor_barcode b)
      else if normal_barcode a \<noteq> normal_barcode b
        then compare (normal_barcode a) (normal_barcode b)
      else CoordinateKey_cmp a b)"
  unfolding BarcodesAndCoordinateKey_cmp_def
  by (auto simp: compare_same split: sum.splits dest: compare_zero)

text \<open>
  C5. \<^verbatim>\<open>SortOrderKey.compare\<close> treats \<^verbatim>\<open>None\<close> the same way whatever the other value
  is: two \<^verbatim>\<open>None\<close>s are equal, a value that is not \<^verbatim>\<open>None\<close> is smaller than
  \<^verbatim>\<open>None\<close>, and \<^verbatim>\<open>None\<close> is greater than any value that is not \<^verbatim>\<open>None\<close>. Every
  field position of both key classes is decided by \<^verbatim>\<open>compare\<close>, so the rule is the same
  at each of them.
\<close>

theorem compare_null_handling:
  fixes a b :: locatable and a' b' :: barcoded
  shows "compare PNone PNone = Inr 0
   \<and> (v \<noteq> PNone \<longrightarrow> compare v PNone = Inr (- 1) \<and> compare PNone v = Inr 1)
   \<and> CoordinateKey_cmp a b =
       (if chromosome a \<noteq> chromosome b then compare (chromosome a) (chromosome b)
        else if start a \<noteq> start b then compare (start a) (start b)
        else compare (end_pos a) (end_pos b))
   \<and> BarcodesAndCoordinateKey_cmp a' b' =
       (if tumor_barcode a' \<noteq> tumor_barcode b'
          then compare (tumor_barcode a') (tumor_barcode b')
        else if normal_barcode a' \<noteq> normal_barcode b'
          then compare (normal_barcode a') (normal_barcode b')
        else if chromosome a' \<noteq> chromosome b' then compare (chromosome a') (chromosome b')
        else if start a' \<noteq> start b' then compare (start a') (start b')
        else compare (end_pos a') (end_pos b'))"
proof -
  have "compare PNone PNone = Inr 0"
    by (simp add: compare_def)
  moreover have "v \<noteq> PNone \<longrightarrow> compare v PNone = Inr (- 1) \<and> compare PNone v = Inr 1"
    by (simp add: compare_def)
  moreover note CoordinateKey_cmp_lex [of a b]
  moreover have "BarcodesAndCoordinateKey_cmp a' b' =
       (if tumor_barcode a' \<noteq> tumor_barcode b'
          then compare (tumor_barcode a') (tumor_barcode b')
        else if normal_barcode a' \<noteq> normal_barcode b'
          then compare (normal_barcode a') (normal_barcode b')
        else if chromosome a' \<noteq> chromosome b' then compare (chromosome a') (chromosome b')
        else if start a' \<noteq> start b' then compare (start a') (start b')
        else compare (end_pos a') (end_pos b'))"
    unfolding BarcodesAndCoordinateKey_cmp_lex CoordinateKey_cmp_lex by simp
  ultimately show ?thesis by blast
qed

theorem compare_null_handling_witness:
  "compare PNone PNone = Inr 0
   \<and> PStr ''chr1'' \<noteq> PNone
   \<and> compare (PStr ''chr1'') PNone = Inr (- 1) \<and> compare PNone (PStr ''chr1'') = Inr 1
   \<and> CoordinateKey_cmp \<lparr>chromosome = PStr ''chr1'', start = PInt 5, end_pos = PNone\<rparr>
        \<lparr>chromosome = PStr ''chr1'', start = PInt 5, end_pos = PInt 7\<rparr> = Inr 1"
  using compare_null_handling [of "PStr ''chr1''"
      "\<lparr>chromosome = PStr ''chr1'', start = PInt 5, end_pos = PNone\<rparr>"
      "\<lparr>chromosome = PStr ''chr1'', start = PInt 5, end_pos = PInt 7\<rparr>"]
  by (simp add: compare_def)

subsection \<open>Keys of the coordinate orders\<close>

lemma key_of_Coordinate:
  "order_class so = Coordinate \<Longrightarrow>
   key_of so r = map_sum id CoordinateKey (CoordinateKey_init r (order_contigs so))"
  by (simp add: key_of_def sort_key_def)

lemma key_of_BarcodesAndCoordinate:
  "order_class so = BarcodesAndCoordinate \<Longrightarrow>
   key_of so r =
     map_sum id BarcodesAndCoordinateKey (BarcodesAndCoordinateKey_init r (order_contigs so))"
  by (simp add: key_of_def sort_key_def)

lemma CoordinateKey_init_ranked:
  "contigs \<noteq> [] \<Longrightarrow> as_locatable r = Some l \<Longrightarrow>
   list_index (map PStr contigs) (chromosome l) = Some i \<Longrightarrow>
   CoordinateKey_init r (Some contigs) =
     Inr \<lparr>chromosome = PInt (int i), start = start l, end_pos = end_pos l\<rparr>"
  by (simp add: CoordinateKey_init_def)

text \<open>
  C3. Under \<^verbatim>\<open>Coordinate\<close> with a contig list that is not empty, the key of a record
  carries the rank of its chromosome in the list. Comparing two such keys gives -1 when
  the first rank is lower and 1 when it is higher, whatever the starts and ends are; with
  equal ranks and different starts the result is the comparison of the starts, which for
  two integers is -1 exactly when the first is lower; with equal ranks and equal starts it
  is the comparison of the ends. The result, when there is one, is -1, 0 or 1; the only
  other outcome is the \<^verbatim>\<open>TypeError\<close> of comparing an integer with a string, and
  there is a result whenever the two starts and the two ends are comparable.
\<close>

theorem Coordinate_key_order:
  assumes "order_class so = Coordinate" and "order_contigs so = Some contigs"
    and "contigs \<noteq> []"
    and "as_locatable r1 = Some l1"
    and "list_index (map PStr contigs) (chromosome l1) = Some i"
    and "as_locatable r2 = Some l2"
    and "list_index (map PStr contigs) (chromosome l2) = Some j"
  shows "(let k1 = CoordinateKey \<lparr>chromosome = PInt (int i), start = start l1,
                                  end_pos = end_pos l1\<rparr>;
              k2 = CoordinateKey \<lparr>chromosome = PInt (int j), start = start l2,
                                  end_pos = end_pos l2\<rparr>
          in key_of so r1 = Inr k1 \<and> key_of so r2 = Inr k2
             \<and> cmp k1 k2 =
                 (if i < j then Inr (- 1)
                  else if j < i then Inr 1
                  else if start l1 \<noteq> start l2 then compare (start l1) (start l2)
                  else compare (end_pos l1) (end_pos l2))
             \<and> cmp k1 k2 \<in> {Inl TypeError, Inr (- 1), Inr 0, Inr 1}
             \<and> (comparable (start l1) (start l2) \<and> comparable (end_pos l1) (end_pos l2)
                  \<longrightarrow> cmp k1 k2 \<in> {Inr (- 1), Inr 0, Inr 1}))
         \<and> compare (PInt a) (PInt b) = Inr (if a < b then - 1 else if a = b then 0 else 1)"
proof -
  define k1 where "k1 = \<lparr>chromosome = PInt (int i), start = start l1, end_pos = end_pos l1\<rparr>"
  define k2 where "k2 = \<lparr>chromosome = PInt (int j), start = start l2, end_pos = end_pos l2\<rparr>"
  have key1: "key_of so r1 = Inr (CoordinateKey k1)"
    using assms by (simp add: key_of_Coordinate CoordinateKey_init_ranked k1_def)
  have key2: "key_of so r2 = Inr (CoordinateKey k2)"
    using assms by (simp add: key_of_Coordinate CoordinateKey_init_ranked k2_def)
  have lex: "cmp (CoordinateKey k1) (CoordinateKey k2) =
      (if i < j then Inr (- 1)
       else if j < i then Inr 1
       else if start l1 \<noteq> start l2 then compare (start l1) (start l2)
       else compare (end_pos l1) (end_pos l2))"
    by (simp add: CoordinateKey_cmp_lex k1_def k2_def compare_int)
  have vals: "cmp (CoordinateKey k1) (CoordinateKey k2)
      \<in> {Inl TypeError, Inr (- 1), Inr 0, Inr 1}"
    using CoordinateKey_cmp_values [of k1 k2] by simp
  have ret: "cmp (CoordinateKey k1) (CoordinateKey k2) \<in> {Inr (- 1), Inr 0, Inr 1}"
    if "comparable (start l1) (start l2) \<and> comparable (end_pos l1) (end_pos l2)"
    using that compare_comparable [of "start l1" "start l2"]
      compare_comparable [of "end_pos l1" "end_pos l2"]
    unfolding lex by auto
  show ?thesis
    unfolding Let_def k1_def [symmetric] k2_def [symmetric]
    using key1 key2 lex vals ret compare_int [of a b] by blast
qed

theorem Coordinate_key_order_witness:
  "order_class (Coordinate_init None (Some [''chr1'', ''chr2''])) = Coordinate
   \<and> order_contigs (Coordinate_init None (Some [''chr1'', ''chr2''])) = Some [''chr1'', ''chr2'']
   \<and> [''chr1'', ''chr2''] \<noteq> []
   \<and> list_index (map PStr [''chr1'', ''chr2'']) (PStr ''chr1'') = Some 0
   \<and> list_index (map PStr [''chr1'', ''chr2'']) (PStr ''chr2'') = Some 1
   \<and> key_of (Coordinate_init None (Some [''chr1'', ''chr2'']))
        (example_record ''chr1'' 900 950 ''T'' ''N'' True)
      = Inr (CoordinateKey \<lparr>chromosome = PInt 0, start = PInt 900, end_pos = PInt 950\<rparr>)
   \<and> key_of (Coordinate_init None (Some [''chr1'', ''chr2'']))
        (example_record ''chr2'' 5 7 ''T'' ''N'' True)
      = Inr (CoordinateKey \<lparr>chromosome = PInt 1, start = PInt 5, end_pos = PInt 7\<rparr>)
   \<and> comparable (PInt 900) (PInt 5) \<and> comparable (PInt 950) (PInt 7)
   \<and> cmp (CoordinateKey \<lparr>chromosome = PInt 0, start = PInt 900, end_pos = PInt 950\<rparr>)
          (CoordinateKey \<lparr>chromosome = PInt 1, start = PInt 5, end_pos = PInt 7\<rparr>)
      = Inr (- 1)"
  using Coordinate_key_order [of "Coordinate_init None (Some [''chr1'', ''chr2''])"
      "[''chr1'', ''chr2'']" "example_record ''chr1'' 900 950 ''T'' ''N'' True"
      "\<lparr>chromosome = PStr ''chr1'', start = PInt 900, end_pos = PInt 950\<rparr>" 0
      "example_record ''chr2'' 5 7 ''T'' ''N'' True"
      "\<lparr>chromosome = PStr ''chr2'', start = PInt 5, end_pos = PInt 7\<rparr>" 1 0 0]
  by (simp add: Coordinate_init_def Coordinate_contigs_def example_record_def Let_def)

text \<open>
  The key of \<^verbatim>\<open>BarcodesAndCoordinate\<close> is the coordinate key of the same record and
  contig list, extended by the two barcodes.
\<close>

lemma BarcodesAndCoordinateKey_init_Inr:
  assumes "BarcodesAndCoordinateKey_init r cs = Inr b"
  shows "\<exists>c. CoordinateKey_init r cs = Inr c
           \<and> b = \<lparr>chromosome = chromosome c, start = start c, end_pos = end_pos c,
                   tumor_barcode = value_of r ''Tumor_Sample_Barcode'',
                   normal_barcode = value_of r ''Matched_Norm_Sample_Barcode''\<rparr>"
  using assms by (auto simp: BarcodesAndCoordinateKey_init_def Let_def split: sum.splits)

lemma CoordinateKey_cmp_fields:
  "chromosome a = chromosome a' \<Longrightarrow> start a = start a' \<Longrightarrow> end_pos a = end_pos a' \<Longrightarrow>
   chromosome b = chromosome b' \<Longrightarrow> start b = start b' \<Longrightarrow> end_pos b = end_pos b' \<Longrightarrow>
   CoordinateKey_cmp a b = CoordinateKey_cmp a' b'"
  by (simp add: CoordinateKey_cmp_lex)

text \<open>
  C4. Under \<^verbatim>\<open>BarcodesAndCoordinate\<close>, when the tumor barcodes of two records differ,
  comparing their keys gives the comparison of the tumor barcodes, which for two strings
  is their lexicographic order; the normal barcodes and the coordinates play no part.
  With equal tumor barcodes and different normal barcodes it gives the comparison of the
  normal barcodes. With both equal it gives what comparing the \<^verbatim>\<open>Coordinate\<close> keys of
  the same two records, for the same contig list, gives.
\<close>

theorem BarcodesAndCoordinate_key_order:
  assumes "order_class sb = BarcodesAndCoordinate" and "order_class sc = Coordinate"
    and "order_contigs sb = order_contigs sc"
    and "key_of sb r1 = Inr kb1" and "key_of sb r2 = Inr kb2"
  shows "(\<exists>kc1 kc2. key_of sc r1 = Inr kc1 \<and> key_of sc r2 = Inr kc2
            \<and> cmp kb1 kb2 =
                (if value_of r1 ''Tumor_Sample_Barcode'' \<noteq> value_of r2 ''Tumor_Sample_Barcode''
                   then compare (value_of r1 ''Tumor_Sample_Barcode'')
                          (value_of r2 ''Tumor_Sample_Barcode'')
                 else if value_of r1 ''Matched_Norm_Sample_Barcode''
                           \<noteq> value_of r2 ''Matched_Norm_Sample_Barcode''
                   then compare (value_of r1 ''Matched_Norm_Sample_Barcode'')
                          (value_of r2 ''Matched_Norm_Sample_Barcode'')
                 else cmp kc1 kc2))
         \<and> compare (PStr s) (PStr t) = Inr (if s < t then - 1 else if s = t then 0 else 1)"
proof -
  from assms(1,4) obtain b1 where b1: "BarcodesAndCoordinateKey_init r1 (order_contigs sb) = Inr b1"
    and kb1: "kb1 = BarcodesAndCoordinateKey b1"
    by (cases "BarcodesAndCoordinateKey_init r1 (order_contigs sb)")
       (auto simp: key_of_BarcodesAndCoordinate)
  from assms(1,5) obtain b2 where b2: "BarcodesAndCoordinateKey_init r2 (order_contigs sb) = Inr b2"
    and kb2: "kb2 = BarcodesAndCoordinateKey b2"
    by (cases "BarcodesAndCoordinateKey_init r2 (order_contigs sb)")
       (auto simp: key_of_BarcodesAndCoordinate)
  from BarcodesAndCoordinateKey_init_Inr [OF b1] obtain c1
    where c1: "CoordinateKey_init r1 (order_contigs sb) = Inr c1"
      and b1_eq: "b1 = \<lparr>chromosome = chromosome c1, start = start c1, end_pos = end_pos c1,
                   tumor_barcode = value_of r1 ''Tumor_Sample_Barcode'',
                   normal_barcode = value_of r1 ''Matched_Norm_Sample_Barcode''\<rparr>"
    by blast
  from BarcodesAndCoordinateKey_init_Inr [OF b2] obtain c2
    where c2: "CoordinateKey_init r2 (order_contigs sb) = Inr c2"
      and b2_eq: "b2 = \<lparr>chromosome = chromosome c2, start = start c2, end_pos = end_pos c2,
                   tumor_barcode = value_of r2 ''Tumor_Sample_Barcode'',
                   normal_barcode = value_of r2 ''Matched_Norm_Sample_Barcode''\<rparr>"
    by blast
  have kc1: "key_of sc r1 = Inr (CoordinateKey c1)"
    using assms(2,3) c1 by (simp add: key_of_Coordinate)
  have kc2: "key_of sc r2 = Inr (CoordinateKey c2)"
    using assms(2,3) c2 by (simp add: key_of_Coordinate)
  have par: "CoordinateKey_cmp b1 b2 = CoordinateKey_cmp c1 c2"
    by (rule CoordinateKey_cmp_fields) (simp_all add: b1_eq b2_eq)
  have "cmp kb1 kb2 =
      (if value_of r1 ''Tumor_Sample_Barcode'' \<noteq> value_of r2 ''Tumor_Sample_Barcode''
         then compare (value_of r1 ''Tumor_Sample_Barcode'')
                (value_of r2 ''Tumor_Sample_Barcode'')
       else if value_of r1 ''Matched_Norm_Sample_Barcode''
                 \<noteq> value_of r2 ''Matched_Norm_Sample_Barcode''
         then compare (value_of r1 ''Matched_Norm_Sample_Barcode'')
                (value_of r2 ''Matched_Norm_Sample_Barcode'')
       else cmp (CoordinateKey c1) (CoordinateKey c2))"
    unfolding kb1 kb2 cmp.simps BarcodesAndCoordinateKey_cmp_lex par
    by (simp add: b1_eq b2_eq)
  with kc1 kc2 compare_str [of s t] show ?thesis by blast
qed

theorem BarcodesAndCoordinate_key_order_witness:
  "order_class (BarcodesAndCoordinate_init None None) = BarcodesAndCoordinate
   \<and> order_class (Coordinate_init None None) = Coordinate
   \<and> order_contigs (BarcodesAndCoordinate_init None None)
       = order_contigs (Coordinate_init None None)
   \<and> key_of (BarcodesAndCoordinate_init None None)
        (example_record ''chr2'' 900 950 ''A'' ''N'' True)
      = Inr (BarcodesAndCoordinateKey
              \<lparr>chromosome = PStr ''chr2'', start = PInt 900, end_pos = PInt 950,
               tumor_barcode = PStr ''A'', normal_barcode = PStr ''N''\<rparr>)
   \<and> key_of (BarcodesAndCoordinate_init None None)
        (example_record ''chr1'' 5 7 ''B'' ''N'' True)
      = Inr (BarcodesAndCoordinateKey
              \<lparr>chromosome = PStr ''chr1'', start = PInt 5, end_pos = PInt 7,
               tumor_barcode = PStr ''B'', normal_barcode = PStr ''N''\<rparr>)
   \<and> cmp (BarcodesAndCoordinateKey
              \<lparr>chromosome = PStr ''chr2'', start = PInt 900, end_pos = PInt 950,
               tumor_barcode = PStr ''A'', normal_barcode = PStr ''N''\<rparr>)
          (BarcodesAndCoordinateKey
              \<lparr>chromosome = PStr ''chr1'', start = PInt 5, end_pos = PInt 7,
               tumor_barcode = PStr ''B'', normal_barcode = PStr ''N''\<rparr>)
      = compare (PStr ''A'') (PStr ''B'')
   \<and> compare (PStr ''A'') (PStr ''B'') = Inr (- 1)"
  using BarcodesAndCoordinate_key_order [of "BarcodesAndCoordinate_init None None"
      "Coordinate_init None None" "example_record ''chr2'' 900 950 ''A'' ''N'' True"
      "BarcodesAndCoordinateKey
              \<lparr>chromosome = PStr ''chr2'', start = PInt 900, end_pos = PInt 950,
               tumor_barcode = PStr ''A'', normal_barcode = PStr ''N''\<rparr>"
      "example_record ''chr1'' 5 7 ''B'' ''N'' True"
      "BarcodesAndCoordinateKey
              \<lparr>chromosome = PStr ''chr1'', start = PInt 5, end_pos = PInt 7,
               tumor_barcode = PStr ''B'', normal_barcode = PStr ''N''\<rparr>" "''A''" "''B''"]
  by (simp add: BarcodesAndCoordinate_init_def Coordinate_init_def Coordinate_contigs_def
      example_record_def key_of_BarcodesAndCoordinate BarcodesAndCoordinateKey_init_def
      CoordinateKey_init_def Let_def)

subsection \<open>Unknown contigs\<close>

lemma list_index_None: "list_index xs v = None \<longleftrightarrow> v \<notin> set xs"
  by (induction xs) auto

lemma sublist_mid: "sublist x (a @ b @ x @ c)"
  unfolding sublist_def by (rule exI [of _ "a @ b"], rule exI [of _ c]) simp

lemma sublist_end: "sublist x (a @ b @ c @ d @ e @ x)"
  unfolding sublist_def by (rule exI [of _ "a @ b @ c @ d @ e"], rule exI [of _ "[]"]) simp

text \<open>
  C8. With a configured contig list that is not empty, deriving the \<^verbatim>\<open>Coordinate\<close> or
  \<^verbatim>\<open>BarcodesAndCoordinate\<close> key of a record whose chromosome is not in the list raises
  \<^verbatim>\<open>ValueError\<close>; the message contains the chromosome and the contigs of the list
  joined by a comma and a space.
\<close>

theorem unknown_contig_error:
  assumes "order_class so = Coordinate \<or> order_class so = BarcodesAndCoordinate"
    and "order_contigs so = Some contigs" and "contigs \<noteq> []"
    and "as_locatable r = Some l" and "chromosome l \<notin> PStr ` set contigs"
  shows "(let msg = ''Could not find contig '' @ quote @ py_str (chromosome l) @ quote
                      @ '' in list of contigs: '' @ str_join '', '' contigs
          in key_of so r = Inl (ValueError msg)
             \<and> sublist (py_str (chromosome l)) msg
             \<and> sublist (str_join '', '' contigs) msg)"
proof -
  have idx: "list_index (map PStr contigs) (chromosome l) = None"
    using assms(5) by (simp add: list_index_None)
  have init: "CoordinateKey_init r (Some contigs) =
      Inl (ValueError (''Could not find contig '' @ quote @ py_str (chromosome l) @ quote
             @ '' in list of contigs: '' @ str_join '', '' contigs))"
    using assms(3,4) idx by (simp add: CoordinateKey_init_def)
  have key: "key_of so r =
      Inl (ValueError (''Could not find contig '' @ quote @ py_str (chromosome l) @ quote
             @ '' in list of contigs: '' @ str_join '', '' contigs))"
    using assms(1,2) init
    by (auto simp: key_of_Coordinate key_of_BarcodesAndCoordinate
        BarcodesAndCoordinateKey_init_def)
  have s1: "sublist (py_str (chromosome l))
      (''Could not find contig '' @ quote @ py_str (chromosome l) @ quote
         @ '' in list of contigs: '' @ str_join '', '' contigs)"
    by (rule sublist_mid)
  have s2: "sublist (str_join '', '' contigs)
      (''Could not find contig '' @ quote @ py_str (chromosome l) @ quote
         @ '' in list of contigs: '' @ str_join '', '' contigs)"
    by (rule sublist_end)
  show ?thesis
    unfolding Let_def using key s1 s2 by (intro conjI)
qed

theorem unknown_contig_error_witness:
  "(order_class (Coordinate_init None (Some [''chr1'', ''chr2'', ''chr3''])) = Coordinate
      \<or> order_class (Coordinate_init None (Some [''chr1'', ''chr2'', ''chr3'']))
          = BarcodesAndCoordinate)
   \<and> order_contigs (Coordinate_init None (Some [''chr1'', ''chr2'', ''chr3'']))
       = Some [''chr1'', ''chr2'', ''chr3'']
   \<and> [''chr1'', ''chr2'', ''chr3''] \<noteq> []
   \<and> as_locatable (example_record ''chrX'' 5 7 ''A'' ''N'' True)
       = Some \<lparr>chromosome = PStr ''chrX'', start = PInt 5, end_pos = PInt 7\<rparr>
   \<and> PStr ''chrX'' \<notin> PStr ` set [''chr1'', ''chr2'', ''chr3'']
   \<and> key_of (Coordinate_init None (Some [''chr1'', ''chr2'', ''chr3'']))
        (example_record ''chrX'' 5 7 ''A'' ''N'' True)
      = Inl (ValueError (''Could not find contig '' @ quote @ ''chrX'' @ quote
               @ '' in list of contigs: chr1, chr2, chr3''))"
  using unknown_contig_error [of "Coordinate_init None (Some [''chr1'', ''chr2'', ''chr3''])"
      "[''chr1'', ''chr2'', ''chr3'']" "example_record ''chrX'' 5 7 ''A'' ''N'' True"
      "\<lparr>chromosome = PStr ''chrX'', start = PInt 5, end_pos = PInt 7\<rparr>"]
  by (simp add: Coordinate_init_def Coordinate_contigs_def example_record_def Let_def)

subsection \<open>An empty contig list\<close>



subsection \<open>The registry\<close>

lemma find_order_name: "V \<in> set all \<Longrightarrow> find_order (name V) = Inr V"
  by (cases V) (simp_all add: find_order_def all_def)

lemma find_order_eq:
  "find_order n =
     (if n = ''Unknown'' then Inr Unknown
      else if n = ''Unsorted'' then Inr Unsorted
      else if n = ''BarcodesAndCoordinate'' then Inr BarcodesAndCoordinate
      else if n = ''Coordinate'' then Inr Coordinate
      else Inl (ValueError (''Could not find sort order '' @ quote @ n @ quote
                 @ '', options: Unknown, Unsorted, BarcodesAndCoordinate, Coordinate'')))"
  unfolding find_order_def all_def by (simp del: One_nat_def)

lemma find_order_sound: "find_order m = Inr V \<Longrightarrow> name V = m"
  by (simp add: find_order_eq split: if_splits)

lemma find_order_fail:
  "n \<notin> name ` set all \<Longrightarrow>
   find_order n = Inl (ValueError (''Could not find sort order '' @ quote @ n @ quote
                 @ '', options: Unknown, Unsorted, BarcodesAndCoordinate, Coordinate''))"
  by (simp add: find_order_eq all_def)

text \<open>
  C7. The registry is the list Unknown, Unsorted, BarcodesAndCoordinate, Coordinate.
  Looking up the name of a registered class returns that class. A name that is not the
  name of a registered class raises \<^verbatim>\<open>ValueError\<close> with a message that quotes the
  name and lists the four registered names. Whatever class a lookup returns has exactly
  the name asked for, so there is no default and no approximate match.
\<close>

theorem find_order_registry:
  "all = [Unknown, Unsorted, BarcodesAndCoordinate, Coordinate]
   \<and> (\<forall>V \<in> set all. find_order (name V) = Inr V)
   \<and> (n \<notin> name ` set all \<longrightarrow>
        find_order n = Inl (ValueError (''Could not find sort order '' @ quote @ n @ quote
          @ '', options: Unknown, Unsorted, BarcodesAndCoordinate, Coordinate'')))
   \<and> (find_order m = Inr W \<longrightarrow> name W = m)"
proof (intro conjI ballI impI)
  show "all = [Unknown, Unsorted, BarcodesAndCoordinate, Coordinate]"
    by (fact all_def)
next
  fix V assume "V \<in> set all"
  then show "find_order (name V) = Inr V" by (rule find_order_name)
next
  assume "n \<notin> name ` set all"
  then show "find_order n = Inl (ValueError (''Could not find sort order '' @ quote @ n @ quote
          @ '', options: Unknown, Unsorted, BarcodesAndCoordinate, Coordinate''))"
    by (rule find_order_fail)
next
  assume "find_order m = Inr W"
  then show "name W = m" by (rule find_order_sound)
qed

theorem find_order_registry_witness:
  "Coordinate \<in> set all \<and> find_order (name Coordinate) = Inr Coordinate
   \<and> ''coordinate'' \<notin> name ` set all
   \<and> find_order ''coordinate'' =
       Inl (ValueError (''Could not find sort order '' @ quote @ ''coordinate'' @ quote
          @ '', options: Unknown, Unsorted, BarcodesAndCoordinate, Coordinate''))
   \<and> find_order ''Unsorted'' = Inr Unsorted \<and> name Unsorted = ''Unsorted''"
proof -
  have a: "Coordinate \<in> set all" by (simp add: all_def)
  have b: "''coordinate'' \<notin> name ` set all" by (simp add: all_def)
  have c: "find_order ''Unsorted'' = Inr Unsorted" by (simp add: find_order_eq)
  from find_order_registry [of "''coordinate''" "''Unsorted''" Unsorted] a b c
  show ?thesis by blast
qed

subsection \<open>The checker\<close>

lemma sort_key_unchecked:
  "order_class so = Unknown \<or> order_class so = Unsorted \<Longrightarrow>
   \<exists>m. sort_key so = Inl (NotImplementedError m)"
  by (auto simp: sort_key_def)

lemma SortOrderChecker_init_unchecked:
  "order_class so = Unknown \<or> order_class so = Unsorted \<Longrightarrow>
   SortOrderChecker_init so = Inr \<lparr>last_rec = None, sort_f = None\<rparr>"
  by (auto simp: SortOrderChecker_init_def sort_key_def)

lemma sort_key_checked:
  "order_class so = Coordinate \<or> order_class so = BarcodesAndCoordinate \<Longrightarrow>
   sort_key so = Inr (key_of so)"
  by (auto simp: sort_key_def key_of_def fun_eq_iff)

lemma SortOrderChecker_init_checked:
  "order_class so = Coordinate \<or> order_class so = BarcodesAndCoordinate \<Longrightarrow>
   SortOrderChecker_init so = Inr \<lparr>last_rec = None, sort_f = Some (key_of so)\<rparr>"
  by (simp add: SortOrderChecker_init_def sort_key_checked)

lemma add_no_key: "sort_f c = None \<Longrightarrow> add r c = (Inr (), c\<lparr>last_rec := Some r\<rparr>)"
  by (simp add: add_def iadd_def split: option.splits)

lemma add_first: "last_rec c = None \<Longrightarrow> add r c = (Inr (), c\<lparr>last_rec := Some r\<rparr>)"
  by (simp add: add_def iadd_def split: option.splits)

lemma add_falsy:
  "last_rec c = Some p \<Longrightarrow> \<not> truthy p \<Longrightarrow> add r c = (Inr (), c\<lparr>last_rec := Some r\<rparr>)"
  by (simp add: add_def iadd_def split: option.splits)

lemma add_checked:
  "last_rec c = Some p \<Longrightarrow> sort_f c = Some f \<Longrightarrow> truthy p \<Longrightarrow>
   f r = Inr kr \<Longrightarrow> f p = Inr kp \<Longrightarrow> lt kr kp = Inr b \<Longrightarrow>
   add r c =
     (if b then (Inl (ValueError (''Records out of order'' @ newline @ str_of p @ newline
                        @ str_of r)), c)
      else (Inr (), c\<lparr>last_rec := Some r\<rparr>))"
  by (simp add: add_def iadd_def)

lemma add_accepted: "add r c = (Inr u, c') \<Longrightarrow> c' = c\<lparr>last_rec := Some r\<rparr>"
  by (auto simp: add_def iadd_def split: option.splits sum.splits if_splits)

lemma add_raised: "add r c = (Inl e, c') \<Longrightarrow> c' = c"
  by (auto simp: add_def iadd_def split: option.splits sum.splits if_splits)

lemma add_all_no_key:
  "sort_f c = None \<Longrightarrow>
   add_all recs c = (Inr (), c\<lparr>last_rec := (if recs = [] then last_rec c else Some (last recs))\<rparr>)"
proof (induction recs arbitrary: c)
  case Nil
  then show ?case by simp
next
  case (Cons r recs)
  have "sort_f (c\<lparr>last_rec := Some r\<rparr>) = None" using Cons.prems by simp
  from Cons.IH [OF this] show ?case
    using Cons.prems by (simp add: add_no_key)
qed

text \<open>
  C2. For a sort order of class \<^verbatim>\<open>Unknown\<close> or \<^verbatim>\<open>Unsorted\<close>, \<^verbatim>\<open>sort_key\<close> raises
  \<^verbatim>\<open>NotImplementedError\<close>, the checker's constructor absorbs it and leaves the key
  function unset, and adding any list of records to the new checker raises nothing: every
  record is accepted and the last one added is the stored previous record.
\<close>

theorem unchecked_orders_never_raise:
  assumes "order_class so = Unknown \<or> order_class so = Unsorted"
  shows "(\<exists>m. sort_key so = Inl (NotImplementedError m))
     \<and> SortOrderChecker_init so = Inr \<lparr>last_rec = None, sort_f = None\<rparr>
     \<and> add_all recs \<lparr>last_rec = None, sort_f = None\<rparr>
         = (Inr (), \<lparr>last_rec = (if recs = [] then None else Some (last recs)),
                     sort_f = None\<rparr>)
     \<and> check_records so recs = Inr ()"
proof -
  have a: "add_all recs \<lparr>last_rec = None, sort_f = None\<rparr>
         = (Inr (), \<lparr>last_rec = (if recs = [] then None else Some (last recs)),
                     sort_f = None\<rparr>)"
    using add_all_no_key [of "\<lparr>last_rec = None, sort_f = None\<rparr>" recs] by simp
  have "check_records so recs = Inr ()"
    using assms a by (simp add: check_records_def SortOrderChecker_init_unchecked)
  with a sort_key_unchecked [OF assms] SortOrderChecker_init_unchecked [OF assms]
  show ?thesis by blast
qed

theorem unchecked_orders_never_raise_witness:
  "(order_class Unsorted_init = Unknown \<or> order_class Unsorted_init = Unsorted)
   \<and> SortOrderChecker_init Unsorted_init = Inr \<lparr>last_rec = None, sort_f = None\<rparr>
   \<and> check_records Unsorted_init
        [example_record ''chr2'' 900 950 ''B'' ''N'' True,
         example_record ''chr1'' 5 7 ''A'' ''N'' True] = Inr ()"
  using unchecked_orders_never_raise [of Unsorted_init
      "[example_record ''chr2'' 900 950 ''B'' ''N'' True,
        example_record ''chr1'' 5 7 ''A'' ''N'' True]"]
  by (simp add: Unsorted_init_def)

text \<open>
  C9. When \<^verbatim>\<open>add\<close> raises, the checker is as it was before the call: the stored
  previous record is still the last accepted one, and a following \<^verbatim>\<open>add\<close> behaves as
  it would have on the checker before the failed call, so it is compared against that
  record and not against the rejected one.
\<close>

theorem add_failure_keeps_state:
  assumes "add r c = (Inl e, c')"
  shows "c' = c \<and> last_rec c' = last_rec c \<and> add r' c' = add r' c"
  using add_raised [OF assms] by simp

theorem add_failure_keeps_state_witness:
  "add (example_record ''chr1'' 5 7 ''B'' ''N'' True)
       \<lparr>last_rec = Some (example_record ''chr1'' 100 200 ''A'' ''N'' True),
        sort_f = Some (key_of (Coordinate_init None None))\<rparr>
     = (Inl (ValueError (''Records out of order'' @ newline @ ''A chr1'' @ newline
               @ ''B chr1'')),
        \<lparr>last_rec = Some (example_record ''chr1'' 100 200 ''A'' ''N'' True),
         sort_f = Some (key_of (Coordinate_init None None))\<rparr>)
   \<and> last_rec \<lparr>last_rec = Some (example_record ''chr1'' 100 200 ''A'' ''N'' True),
                sort_f = Some (key_of (Coordinate_init None None))\<rparr>
       = Some (example_record ''chr1'' 100 200 ''A'' ''N'' True)"
proof -
  let ?c = "\<lparr>last_rec = Some (example_record ''chr1'' 100 200 ''A'' ''N'' True),
             sort_f = Some (key_of (Coordinate_init None None))\<rparr>"
  let ?r = "example_record ''chr1'' 5 7 ''B'' ''N'' True"
  have raised: "add ?r ?c
     = (Inl (ValueError (''Records out of order'' @ newline @ ''A chr1'' @ newline
               @ ''B chr1'')), ?c)"
    by (simp add: add_def iadd_def key_of_def sort_key_def Coordinate_init_def
        Coordinate_contigs_def CoordinateKey_init_def example_record_def lt_def
        CoordinateKey_cmp_def compare_def py_greater_def)
  from add_failure_keeps_state [OF raised] raised show ?thesis by simp
qed

lemma sublist_order_msg:
  "sublist p (a @ n @ p @ n' @ r)" "sublist r (a @ n @ p @ n' @ r)"
proof -
  show "sublist p (a @ n @ p @ n' @ r)" by (rule sublist_mid)
  show "sublist r (a @ n @ p @ n' @ r)"
    unfolding sublist_def by (rule exI [of _ "a @ n @ p @ n'"], rule exI [of _ "[]"]) simp
qed

text \<open>
  The path of \<^verbatim>\<open>__iadd__\<close> on which the comparison runs: the checker is bound to
  \<^verbatim>\<open>Coordinate\<close> or \<^verbatim>\<open>BarcodesAndCoordinate\<close>, the stored record \<open>p\<close> passes the
  truth test of the guard, and both keys can be derived and compared. There \<^verbatim>\<open>add(r)\<close>
  raises the order violation exactly when the key of \<open>r\<close> is less than the key of
  \<open>p\<close>, the message contains the string forms of both records, and any call of
  \<^verbatim>\<open>add\<close> that returns has made its argument the stored record.
\<close>

lemma add_compares_after_true_record:
  assumes "order_class so = Coordinate \<or> order_class so = BarcodesAndCoordinate"
    and "truthy p"
    and "key_of so r = Inr kr" and "key_of so p = Inr kp" and "lt kr kp = Inr b"
  shows "(let c = \<lparr>last_rec = Some p, sort_f = Some (key_of so)\<rparr>;
              msg = ''Records out of order'' @ newline @ str_of p @ newline @ str_of r
          in SortOrderChecker_init so = Inr \<lparr>last_rec = None, sort_f = Some (key_of so)\<rparr>
             \<and> add r c = (if b then (Inl (ValueError msg), c)
                          else (Inr (), c\<lparr>last_rec := Some r\<rparr>))
             \<and> sublist (str_of p) msg \<and> sublist (str_of r) msg)
         \<and> (\<forall>x d u d'. add x d = (Inr u, d') \<longrightarrow> d' = d\<lparr>last_rec := Some x\<rparr>)"
proof -
  let ?c = "\<lparr>last_rec = Some p, sort_f = Some (key_of so)\<rparr>"
  have "add r ?c =
      (if b then (Inl (ValueError (''Records out of order'' @ newline @ str_of p @ newline
                         @ str_of r)), ?c)
       else (Inr (), ?c\<lparr>last_rec := Some r\<rparr>))"
    using add_checked [of ?c p "key_of so" r kr kp b] assms(2-5) by simp
  moreover have "\<forall>x d u d'. add x d = (Inr u, d') \<longrightarrow> d' = d\<lparr>last_rec := Some x\<rparr>"
    using add_accepted by blast
  ultimately show ?thesis
    unfolding Let_def
    using SortOrderChecker_init_checked [OF assms(1)] sublist_order_msg by blast
qed

lemma add_compares_after_true_record_example:
  "(order_class (Coordinate_init None None) = Coordinate
      \<or> order_class (Coordinate_init None None) = BarcodesAndCoordinate)
   \<and> truthy (example_record ''chr1'' 100 200 ''A'' ''N'' True)
   \<and> key_of (Coordinate_init None None) (example_record ''chr1'' 5 7 ''B'' ''N'' True)
       = Inr (CoordinateKey \<lparr>chromosome = PStr ''chr1'', start = PInt 5, end_pos = PInt 7\<rparr>)
   \<and> key_of (Coordinate_init None None) (example_record ''chr1'' 100 200 ''A'' ''N'' True)
       = Inr (CoordinateKey
                \<lparr>chromosome = PStr ''chr1'', start = PInt 100, end_pos = PInt 200\<rparr>)
   \<and> lt (CoordinateKey \<lparr>chromosome = PStr ''chr1'', start = PInt 5, end_pos = PInt 7\<rparr>)
         (CoordinateKey \<lparr>chromosome = PStr ''chr1'', start = PInt 100, end_pos = PInt 200\<rparr>)
       = Inr True
   \<and> add (example_record ''chr1'' 5 7 ''B'' ''N'' True)
         \<lparr>last_rec = Some (example_record ''chr1'' 100 200 ''A'' ''N'' True),
          sort_f = Some (key_of (Coordinate_init None None))\<rparr>
       = (Inl (ValueError (''Records out of order'' @ newline @ ''A chr1'' @ newline
                 @ ''B chr1'')),
          \<lparr>last_rec = Some (example_record ''chr1'' 100 200 ''A'' ''N'' True),
           sort_f = Some (key_of (Coordinate_init None None))\<rparr>)"
proof -
  let ?so = "Coordinate_init None None"
  let ?p = "example_record ''chr1'' 100 200 ''A'' ''N'' True"
  let ?r = "example_record ''chr1'' 5 7 ''B'' ''N'' True"
  let ?kp = "CoordinateKey \<lparr>chromosome = PStr ''chr1'', start = PInt 100, end_pos = PInt 200\<rparr>"
  let ?kr = "CoordinateKey \<lparr>chromosome = PStr ''chr1'', start = PInt 5, end_pos = PInt 7\<rparr>"
  have cls: "order_class ?so = Coordinate \<or> order_class ?so = BarcodesAndCoordinate"
    by (simp add: Coordinate_init_def)
  have tp: "truthy ?p" by (simp add: example_record_def)
  have kr: "key_of ?so ?r = Inr ?kr"
    by (simp add: key_of_def sort_key_def Coordinate_init_def Coordinate_contigs_def
        CoordinateKey_init_def example_record_def)
  have kp: "key_of ?so ?p = Inr ?kp"
    by (simp add: key_of_def sort_key_def Coordinate_init_def Coordinate_contigs_def
        CoordinateKey_init_def example_record_def)
  have less: "lt ?kr ?kp = Inr True"
    by (simp add: lt_def CoordinateKey_cmp_def compare_def py_greater_def)
  have strs: "str_of ?p = ''A chr1''" "str_of ?r = ''B chr1''"
    by (simp_all add: example_record_def)
  from add_compares_after_true_record [OF cls tp kr kp less] cls tp kr kp less strs
  show ?thesis by (simp add: Let_def)
qed

text \<open>
  C1. The specification says that, for a checker bound to \<^verbatim>\<open>Coordinate\<close> or
  \<^verbatim>\<open>BarcodesAndCoordinate\<close> and every record \<open>r\<close> added after a record \<open>p\<close> has been
  accepted, \<^verbatim>\<open>add(r)\<close> raises the order violation if and only if the key of \<open>r\<close> is
  less than the key of \<open>p\<close>. The code does not do this for every \<open>p\<close>. \<^verbatim>\<open>_last_rec\<close>
  starts as \<^verbatim>\<open>None\<close> and the docstring of \<^verbatim>\<open>add\<close> reads "Check that the given
  record is in order relative to the previous record", but the guard
  \<^verbatim>\<open>if self._last_rec and self._sort_f\<close> tests the truth value of the stored record
  where a test for \<^verbatim>\<open>None\<close> is meant. Below, \<open>p\<close> is a record at chr1:100-200 that is
  false in a boolean context and \<open>r\<close> a record at chr1:5-7: both keys are derived, the
  key of \<open>r\<close> is less than the key of \<open>p\<close>, and yet \<^verbatim>\<open>add(r)\<close> on the checker that
  holds \<open>p\<close> returns and stores \<open>r\<close>; adding \<open>p\<close> and then \<open>r\<close> to a new checker
  raises nothing.
\<close>

theorem add_accepts_smaller_key_after_false_record:
  "key_of (Coordinate_init None None) (example_record ''chr1'' 5 7 ''B'' ''N'' True)
       = Inr (CoordinateKey \<lparr>chromosome = PStr ''chr1'', start = PInt 5, end_pos = PInt 7\<rparr>)
   \<and> key_of (Coordinate_init None None) (example_record ''chr1'' 100 200 ''A'' ''N'' False)
       = Inr (CoordinateKey
                \<lparr>chromosome = PStr ''chr1'', start = PInt 100, end_pos = PInt 200\<rparr>)
   \<and> lt (CoordinateKey \<lparr>chromosome = PStr ''chr1'', start = PInt 5, end_pos = PInt 7\<rparr>)
         (CoordinateKey \<lparr>chromosome = PStr ''chr1'', start = PInt 100, end_pos = PInt 200\<rparr>)
       = Inr True
   \<and> add (example_record ''chr1'' 5 7 ''B'' ''N'' True)
         \<lparr>last_rec = Some (example_record ''chr1'' 100 200 ''A'' ''N'' False),
          sort_f = Some (key_of (Coordinate_init None None))\<rparr>
       = (Inr (),
          \<lparr>last_rec = Some (example_record ''chr1'' 5 7 ''B'' ''N'' True),
           sort_f = Some (key_of (Coordinate_init None None))\<rparr>)
   \<and> check_records (Coordinate_init None None)
        [example_record ''chr1'' 100 200 ''A'' ''N'' False,
         example_record ''chr1'' 5 7 ''B'' ''N'' True] = Inr ()"
proof -
  let ?so = "Coordinate_init None None"
  let ?p = "example_record ''chr1'' 100 200 ''A'' ''N'' False"
  let ?r = "example_record ''chr1'' 5 7 ''B'' ''N'' True"
  let ?kp = "CoordinateKey \<lparr>chromosome = PStr ''chr1'', start = PInt 100, end_pos = PInt 200\<rparr>"
  let ?kr = "CoordinateKey \<lparr>chromosome = PStr ''chr1'', start = PInt 5, end_pos = PInt 7\<rparr>"
  have cls: "order_class ?so = Coordinate \<or> order_class ?so = BarcodesAndCoordinate"
    by (simp add: Coordinate_init_def)
  have fp: "\<not> truthy ?p" by (simp add: example_record_def)
  have kr: "key_of ?so ?r = Inr ?kr"
    by (simp add: key_of_def sort_key_def Coordinate_init_def Coordinate_contigs_def
        CoordinateKey_init_def example_record_def)
  have kp: "key_of ?so ?p = Inr ?kp"
    by (simp add: key_of_def sort_key_def Coordinate_init_def Coordinate_contigs_def
        CoordinateKey_init_def example_record_def)
  have less: "lt ?kr ?kp = Inr True"
    by (simp add: lt_def CoordinateKey_cmp_def compare_def py_greater_def)
  have a1: "add ?p \<lparr>last_rec = None, sort_f = Some (key_of ?so)\<rparr>
      = (Inr (), \<lparr>last_rec = Some ?p, sort_f = Some (key_of ?so)\<rparr>)"
    using add_first [of "\<lparr>last_rec = None, sort_f = Some (key_of ?so)\<rparr>" ?p] by simp
  have a2: "add ?r \<lparr>last_rec = Some ?p, sort_f = Some (key_of ?so)\<rparr>
      = (Inr (), \<lparr>last_rec = Some ?r, sort_f = Some (key_of ?so)\<rparr>)"
    using add_falsy [of "\<lparr>last_rec = Some ?p, sort_f = Some (key_of ?so)\<rparr>" ?p ?r] fp
    by simp
  have chk: "check_records ?so [?p, ?r] = Inr ()"
    by (simp add: check_records_def SortOrderChecker_init_checked [OF cls] a1 a2)
  from kr kp less a2 chk show ?thesis by (intro conjI)
qed

subsection \<open>The enforcing iterator\<close>

lemma consume_Nil: "iter it = [] \<Longrightarrow> consume it = ([], StopIteration, it)"
  by (subst consume.simps) (simp add: next_record_def)

lemma consume_accept:
  "iter it = r # rest \<Longrightarrow> add r (checker it) = (Inr u, c) \<Longrightarrow>
   consume it =
     (case consume (it\<lparr>checker := c, iter := rest\<rparr>) of
        (recs, e, it') \<Rightarrow> (r # recs, e, it'))"
  by (subst consume.simps) (simp add: next_record_def)

lemma consume_raise:
  "iter it = r # rest \<Longrightarrow> add r (checker it) = (Inl e, c) \<Longrightarrow>
   consume it = ([], e, it\<lparr>checker := c, iter := rest\<rparr>)"
  by (subst consume.simps) (simp add: next_record_def)

lemma in_order_tail: "in_order f (p # recs) \<Longrightarrow> in_order f recs"
  by (cases recs) simp_all

lemma add_in_order:
  assumes "sort_f c = Some f"
    and "in_order f (case last_rec c of None \<Rightarrow> r # recs | Some q \<Rightarrow> q # r # recs)"
  shows "add r c = (Inr (), c\<lparr>last_rec := Some r\<rparr>)"
proof (cases "last_rec c")
  case None
  then show ?thesis by (rule add_first)
next
  case (Some q)
  with assms(2) have io: "in_order f (q # r # recs)" by simp
  then obtain kr kq where k: "f r = Inr kr" "f q = Inr kq" "lt kr kq = Inr False"
    by (auto split: sum.splits)
  show ?thesis
  proof (cases "truthy q")
    case True
    from add_checked [OF Some assms(1) True k] show ?thesis by simp
  next
    case False
    from add_falsy [OF Some False] show ?thesis .
  qed
qed

lemma consume_in_order:
  assumes "sort_f c = Some f"
    and "in_order f (case last_rec c of None \<Rightarrow> recs | Some q \<Rightarrow> q # recs)"
  shows "\<exists>it'. consume \<lparr>checker = c, iter = recs\<rparr> = (recs, StopIteration, it')"
  using assms
proof (induction recs arbitrary: c)
  case Nil
  then show ?case by (simp add: consume_Nil)
next
  case (Cons r recs)
  have acc: "add r c = (Inr (), c\<lparr>last_rec := Some r\<rparr>)"
    using add_in_order [OF Cons.prems(1), of r recs] Cons.prems(2)
    by (cases "last_rec c") simp_all
  have io: "in_order f (r # recs)"
    using Cons.prems(2) by (cases "last_rec c") (auto dest: in_order_tail)
  have "\<exists>it'. consume \<lparr>checker = c\<lparr>last_rec := Some r\<rparr>, iter = recs\<rparr>
      = (recs, StopIteration, it')"
    using Cons.IH [of "c\<lparr>last_rec := Some r\<rparr>"] Cons.prems(1) io by simp
  then obtain it' where
    "consume \<lparr>checker = c\<lparr>last_rec := Some r\<rparr>, iter = recs\<rparr> = (recs, StopIteration, it')"
    by blast
  then show ?case
    using consume_accept [of "\<lparr>checker = c, iter = r # recs\<rparr>" r recs "()"
        "c\<lparr>last_rec := Some r\<rparr>"] acc
    by simp
qed

lemma consume_no_key:
  assumes "sort_f c = None"
  shows "\<exists>it'. consume \<lparr>checker = c, iter = recs\<rparr> = (recs, StopIteration, it')"
  using assms
proof (induction recs arbitrary: c)
  case Nil
  then show ?case by (simp add: consume_Nil)
next
  case (Cons r recs)
  have acc: "add r c = (Inr (), c\<lparr>last_rec := Some r\<rparr>)"
    using Cons.prems by (rule add_no_key)
  have "\<exists>it'. consume \<lparr>checker = c\<lparr>last_rec := Some r\<rparr>, iter = recs\<rparr>
      = (recs, StopIteration, it')"
    using Cons.IH [of "c\<lparr>last_rec := Some r\<rparr>"] Cons.prems by simp
  then obtain it' where
    "consume \<lparr>checker = c\<lparr>last_rec := Some r\<rparr>, iter = recs\<rparr> = (recs, StopIteration, it')"
    by blast
  then show ?case
    using consume_accept [of "\<lparr>checker = c, iter = r # recs\<rparr>" r recs "()"
        "c\<lparr>last_rec := Some r\<rparr>"] acc
    by simp
qed

lemma consume_violation:
  assumes "sort_f c = Some f"
    and "in_order f (case last_rec c of None \<Rightarrow> pre @ [p] | Some q \<Rightarrow> q # pre @ [p])"
    and "truthy p" and "f r = Inr kr" and "f p = Inr kp" and "lt kr kp = Inr True"
  shows "\<exists>it'. consume \<lparr>checker = c, iter = pre @ p # r # rest\<rparr>
           = (pre @ [p],
              ValueError (''Records out of order'' @ newline @ str_of p @ newline @ str_of r),
              it')"
  using assms(1,2)
proof (induction pre arbitrary: c)
  case Nil
  have acc: "add p c = (Inr (), c\<lparr>last_rec := Some p\<rparr>)"
    using add_in_order [OF Nil.prems(1), of p "[]"] Nil.prems(2)
    by (cases "last_rec c") simp_all
  have rej: "add r (c\<lparr>last_rec := Some p\<rparr>)
      = (Inl (ValueError (''Records out of order'' @ newline @ str_of p @ newline
                @ str_of r)), c\<lparr>last_rec := Some p\<rparr>)"
    using add_checked [of "c\<lparr>last_rec := Some p\<rparr>" p f r kr kp True]
      Nil.prems(1) assms(3-6) by simp
  have "consume \<lparr>checker = c\<lparr>last_rec := Some p\<rparr>, iter = r # rest\<rparr>
      = ([], ValueError (''Records out of order'' @ newline @ str_of p @ newline @ str_of r),
         \<lparr>checker = c\<lparr>last_rec := Some p\<rparr>, iter = rest\<rparr>)"
    using consume_raise [of "\<lparr>checker = c\<lparr>last_rec := Some p\<rparr>, iter = r # rest\<rparr>" r rest _
        "c\<lparr>last_rec := Some p\<rparr>"] rej
    by simp
  then show ?case
    using consume_accept [of "\<lparr>checker = c, iter = p # r # rest\<rparr>" p "r # rest" "()"
        "c\<lparr>last_rec := Some p\<rparr>"] acc
    by simp
next
  case (Cons x pre)
  have acc: "add x c = (Inr (), c\<lparr>last_rec := Some x\<rparr>)"
    using add_in_order [OF Cons.prems(1), of x "pre @ [p]"] Cons.prems(2)
    by (cases "last_rec c") simp_all
  have io: "in_order f (x # pre @ [p])"
    using Cons.prems(2) by (cases "last_rec c") (auto dest: in_order_tail)
  have "\<exists>it'. consume \<lparr>checker = c\<lparr>last_rec := Some x\<rparr>, iter = pre @ p # r # rest\<rparr>
      = (pre @ [p],
         ValueError (''Records out of order'' @ newline @ str_of p @ newline @ str_of r), it')"
    using Cons.IH [of "c\<lparr>last_rec := Some x\<rparr>"] Cons.prems(1) io by simp
  then obtain it' where
    "consume \<lparr>checker = c\<lparr>last_rec := Some x\<rparr>, iter = pre @ p # r # rest\<rparr>
      = (pre @ [p],
         ValueError (''Records out of order'' @ newline @ str_of p @ newline @ str_of r), it')"
    by blast
  then show ?case
    using consume_accept [of "\<lparr>checker = c, iter = x # pre @ p # r # rest\<rparr>" x
        "pre @ p # r # rest" "()" "c\<lparr>last_rec := Some x\<rparr>"] acc
    by simp
qed

lemma enforce_unchecked:
  assumes "order_class so = Unknown \<or> order_class so = Unsorted"
  shows "enforce recs so = (recs, StopIteration)"
proof -
  obtain it' where "consume \<lparr>checker = \<lparr>last_rec = None, sort_f = None\<rparr>, iter = recs\<rparr>
      = (recs, StopIteration, it')"
    using consume_no_key [of "\<lparr>last_rec = None, sort_f = None\<rparr>" recs] by auto
  then show ?thesis
    by (simp add: enforce_def SortOrderEnforcingIterator_init_def
        SortOrderChecker_init_unchecked [OF assms])
qed

lemma enforce_in_order:
  assumes "order_class so = Coordinate \<or> order_class so = BarcodesAndCoordinate"
    and "in_order (key_of so) recs"
  shows "enforce recs so = (recs, StopIteration)"
proof -
  obtain it' where
    "consume \<lparr>checker = \<lparr>last_rec = None, sort_f = Some (key_of so)\<rparr>, iter = recs\<rparr>
      = (recs, StopIteration, it')"
    using consume_in_order [of "\<lparr>last_rec = None, sort_f = Some (key_of so)\<rparr>"
        "key_of so" recs] assms(2) by auto
  then show ?thesis
    by (simp add: enforce_def SortOrderEnforcingIterator_init_def
        SortOrderChecker_init_checked [OF assms(1)])
qed

lemma enforce_violation:
  assumes "order_class so = Coordinate \<or> order_class so = BarcodesAndCoordinate"
    and "in_order (key_of so) (pre @ [p])" and "truthy p"
    and "key_of so r = Inr kr" and "key_of so p = Inr kp" and "lt kr kp = Inr True"
  shows "enforce (pre @ p # r # rest) so
     = (pre @ [p],
        ValueError (''Records out of order'' @ newline @ str_of p @ newline @ str_of r))"
proof -
  obtain it' where
    "consume \<lparr>checker = \<lparr>last_rec = None, sort_f = Some (key_of so)\<rparr>,
              iter = pre @ p # r # rest\<rparr>
      = (pre @ [p],
         ValueError (''Records out of order'' @ newline @ str_of p @ newline @ str_of r),
         it')"
    using consume_violation [of "\<lparr>last_rec = None, sort_f = Some (key_of so)\<rparr>"
        "key_of so" pre p r kr kp rest] assms(2-6) by auto
  then show ?thesis
    by (simp add: enforce_def SortOrderEnforcingIterator_init_def
        SortOrderChecker_init_checked [OF assms(1)])
qed

text \<open>
  What consuming the enforcing iterator gives on the paths where the checker works as its
  docstring says. Over a list of records that is in the order of the sort order's key (or
  over any list, for \<^verbatim>\<open>Unknown\<close> and \<^verbatim>\<open>Unsorted\<close>) it yields exactly the records of
  the list, in their order, and then ends with \<^verbatim>\<open>StopIteration\<close> as the wrapped
  iterator does. When the list is in order up to a record \<open>p\<close> that passes the truth
  test of the checker's guard and the next record \<open>r\<close> has a key less than the key of
  \<open>p\<close>, the records up to and including \<open>p\<close> are yielded and the order violation is
  raised where \<open>r\<close> would have been yielded.
\<close>

lemma enforce_passes_or_raises:
  "(order_class so = Unknown \<or> order_class so = Unsorted \<or> in_order (key_of so) recs
      \<longrightarrow> enforce recs so = (recs, StopIteration))
   \<and> ((order_class so = Coordinate \<or> order_class so = BarcodesAndCoordinate)
        \<and> in_order (key_of so) (pre @ [p]) \<and> truthy p
        \<and> key_of so r = Inr kr \<and> key_of so p = Inr kp \<and> lt kr kp = Inr True
      \<longrightarrow> enforce (pre @ p # r # rest) so
            = (pre @ [p],
               ValueError (''Records out of order'' @ newline @ str_of p @ newline
                 @ str_of r)))"
proof (intro conjI impI)
  assume a: "order_class so = Unknown \<or> order_class so = Unsorted
      \<or> in_order (key_of so) recs"
  show "enforce recs so = (recs, StopIteration)"
  proof (cases "order_class so = Unknown \<or> order_class so = Unsorted")
    case True
    then show ?thesis by (rule enforce_unchecked)
  next
    case False
    then have cls: "order_class so = Coordinate \<or> order_class so = BarcodesAndCoordinate"
      by (cases "order_class so") simp_all
    from False a have "in_order (key_of so) recs" by blast
    with cls show ?thesis by (rule enforce_in_order)
  qed
next
  assume "(order_class so = Coordinate \<or> order_class so = BarcodesAndCoordinate)
        \<and> in_order (key_of so) (pre @ [p]) \<and> truthy p
        \<and> key_of so r = Inr kr \<and> key_of so p = Inr kp \<and> lt kr kp = Inr True"
  then show "enforce (pre @ p # r # rest) so
            = (pre @ [p],
               ValueError (''Records out of order'' @ newline @ str_of p @ newline
                 @ str_of r))"
    using enforce_violation by blast
qed

lemma key_of_example:
  "key_of (Coordinate_init None None) (example_record chrom s e tumor normal nonempty)
     = Inr (CoordinateKey \<lparr>chromosome = PStr chrom, start = PInt s, end_pos = PInt e\<rparr>)"
  by (simp add: key_of_def sort_key_def Coordinate_init_def Coordinate_contigs_def
      CoordinateKey_init_def example_record_def)

lemma lt_example:
  "lt (CoordinateKey \<lparr>chromosome = PStr chrom, start = PInt s, end_pos = PInt e\<rparr>)
      (CoordinateKey \<lparr>chromosome = PStr chrom, start = PInt s', end_pos = PInt e'\<rparr>)
     = Inr (s < s' \<or> s = s' \<and> e < e')"
  by (auto simp: lt_def CoordinateKey_cmp_lex compare_int)

lemma enforce_passes_or_raises_example:
  "in_order (key_of (Coordinate_init None None))
      [example_record ''chr1'' 5 7 ''A'' ''N'' True,
       example_record ''chr1'' 100 200 ''B'' ''N'' True]
   \<and> enforce [example_record ''chr1'' 5 7 ''A'' ''N'' True,
               example_record ''chr1'' 100 200 ''B'' ''N'' True] (Coordinate_init None None)
       = ([example_record ''chr1'' 5 7 ''A'' ''N'' True,
           example_record ''chr1'' 100 200 ''B'' ''N'' True], StopIteration)
   \<and> truthy (example_record ''chr1'' 100 200 ''B'' ''N'' True)
   \<and> lt (CoordinateKey \<lparr>chromosome = PStr ''chr1'', start = PInt 50, end_pos = PInt 60\<rparr>)
         (CoordinateKey \<lparr>chromosome = PStr ''chr1'', start = PInt 100, end_pos = PInt 200\<rparr>)
       = Inr True
   \<and> enforce [example_record ''chr1'' 5 7 ''A'' ''N'' True,
               example_record ''chr1'' 100 200 ''B'' ''N'' True,
               example_record ''chr1'' 50 60 ''C'' ''N'' True,
               example_record ''chr1'' 300 400 ''D'' ''N'' True] (Coordinate_init None None)
       = ([example_record ''chr1'' 5 7 ''A'' ''N'' True,
           example_record ''chr1'' 100 200 ''B'' ''N'' True],
          ValueError (''Records out of order'' @ newline @ ''B chr1'' @ newline
            @ ''C chr1''))"
proof -
  let ?so = "Coordinate_init None None"
  let ?a = "example_record ''chr1'' 5 7 ''A'' ''N'' True"
  let ?b = "example_record ''chr1'' 100 200 ''B'' ''N'' True"
  let ?c = "example_record ''chr1'' 50 60 ''C'' ''N'' True"
  let ?d = "example_record ''chr1'' 300 400 ''D'' ''N'' True"
  let ?kb = "CoordinateKey \<lparr>chromosome = PStr ''chr1'', start = PInt 100, end_pos = PInt 200\<rparr>"
  let ?kc = "CoordinateKey \<lparr>chromosome = PStr ''chr1'', start = PInt 50, end_pos = PInt 60\<rparr>"
  have cls: "order_class ?so = Coordinate \<or> order_class ?so = BarcodesAndCoordinate"
    by (simp add: Coordinate_init_def)
  have io: "in_order (key_of ?so) [?a, ?b]"
    by (simp add: key_of_example lt_example)
  have io': "in_order (key_of ?so) ([?a] @ [?b])"
    using io by simp
  have tb: "truthy ?b" by (simp add: example_record_def)
  have kc: "key_of ?so ?c = Inr ?kc" by (rule key_of_example)
  have kb: "key_of ?so ?b = Inr ?kb" by (rule key_of_example)
  have less: "lt ?kc ?kb = Inr True" by (simp add: lt_example)
  have strs: "str_of ?b = ''B chr1''" "str_of ?c = ''C chr1''"
    by (simp_all add: example_record_def)
  from enforce_passes_or_raises [of ?so "[?a, ?b]" "[?a]" ?b ?c ?kc ?kb "[?d]"]
    cls io io' tb kc kb less strs
  show ?thesis by simp
qed

text \<open>
  C6. The specification says that the enforcing iterator yields the elements of an ordered sequence
  unchanged and that, for a sequence containing an out-of-order element, iteration raises
  at the position where that element would be yielded. \<^verbatim>\<open>__next__\<close> hands each record
  to \<^verbatim>\<open>add\<close> of its checker, so the second half fails with the guard of
  \<^verbatim>\<open>__iadd__\<close>, which tests the truth value of the stored record where a test for
  \<^verbatim>\<open>None\<close> is meant. Below, the wrapped sequence is a record at chr1:100-200 that is
  false in a boolean context followed by a record at chr1:5-7: the key of the second is
  less than the key of the first, and yet the iterator yields both records and ends with
  \<^verbatim>\<open>StopIteration\<close>.
\<close>

theorem enforce_yields_smaller_key_after_false_record:
  "key_of (Coordinate_init None None) (example_record ''chr1'' 5 7 ''B'' ''N'' True)
       = Inr (CoordinateKey \<lparr>chromosome = PStr ''chr1'', start = PInt 5, end_pos = PInt 7\<rparr>)
   \<and> key_of (Coordinate_init None None) (example_record ''chr1'' 100 200 ''A'' ''N'' False)
       = Inr (CoordinateKey
                \<lparr>chromosome = PStr ''chr1'', start = PInt 100, end_pos = PInt 200\<rparr>)
   \<and> lt (CoordinateKey \<lparr>chromosome = PStr ''chr1'', start = PInt 5, end_pos = PInt 7\<rparr>)
         (CoordinateKey \<lparr>chromosome = PStr ''chr1'', start = PInt 100, end_pos = PInt 200\<rparr>)
       = Inr True
   \<and> enforce [example_record ''chr1'' 100 200 ''A'' ''N'' False,
               example_record ''chr1'' 5 7 ''B'' ''N'' True] (Coordinate_init None None)
       = ([example_record ''chr1'' 100 200 ''A'' ''N'' False,
           example_record ''chr1'' 5 7 ''B'' ''N'' True], StopIteration)"
proof -
  let ?so = "Coordinate_init None None"
  let ?p = "example_record ''chr1'' 100 200 ''A'' ''N'' False"
  let ?r = "example_record ''chr1'' 5 7 ''B'' ''N'' True"
  let ?c0 = "\<lparr>last_rec = None, sort_f = Some (key_of ?so)\<rparr>"
  have cls: "order_class ?so = Coordinate \<or> order_class ?so = BarcodesAndCoordinate"
    by (simp add: Coordinate_init_def)
  have fp: "\<not> truthy ?p" by (simp add: example_record_def)
  have a1: "add ?p ?c0 = (Inr (), ?c0\<lparr>last_rec := Some ?p\<rparr>)"
    by (rule add_first) simp
  have a2: "add ?r (?c0\<lparr>last_rec := Some ?p\<rparr>)
      = (Inr (), ?c0\<lparr>last_rec := Some ?p\<rparr>\<lparr>last_rec := Some ?r\<rparr>)"
    using fp by (intro add_falsy [of _ ?p]) simp_all
  have c3: "consume \<lparr>checker = ?c0\<lparr>last_rec := Some ?r\<rparr>, iter = []\<rparr>
      = ([], StopIteration, \<lparr>checker = ?c0\<lparr>last_rec := Some ?r\<rparr>, iter = []\<rparr>)"
    by (rule consume_Nil) simp
  have c2: "consume \<lparr>checker = ?c0\<lparr>last_rec := Some ?p\<rparr>, iter = [?r]\<rparr>
      = ([?r], StopIteration, \<lparr>checker = ?c0\<lparr>last_rec := Some ?r\<rparr>, iter = []\<rparr>)"
    using consume_accept [of "\<lparr>checker = ?c0\<lparr>last_rec := Some ?p\<rparr>, iter = [?r]\<rparr>" ?r "[]"
        "()" "?c0\<lparr>last_rec := Some ?r\<rparr>"] a2 c3
    by simp
  have c1: "consume \<lparr>checker = ?c0, iter = [?p, ?r]\<rparr>
      = ([?p, ?r], StopIteration, \<lparr>checker = ?c0\<lparr>last_rec := Some ?r\<rparr>, iter = []\<rparr>)"
    using consume_accept [of "\<lparr>checker = ?c0, iter = [?p, ?r]\<rparr>" ?p "[?r]"
        "()" "?c0\<lparr>last_rec := Some ?p\<rparr>"] a1 c2
    by simp
  have enf: "enforce [?p, ?r] ?so = ([?p, ?r], StopIteration)"
    by (simp add: enforce_def SortOrderEnforcingIterator_init_def
        SortOrderChecker_init_checked [OF cls] c1)
  have less: "lt (CoordinateKey \<lparr>chromosome = PStr ''chr1'', start = PInt 5, end_pos = PInt 7\<rparr>)
         (CoordinateKey \<lparr>chromosome = PStr ''chr1'', start = PInt 100, end_pos = PInt 200\<rparr>)
       = Inr True"
    by (simp add: lt_example)
  from key_of_example [of "''chr1''" 5 7 "''B''" "''N''" True]
    key_of_example [of "''chr1''" 100 200 "''A''" "''N''" False] less enf
  show ?thesis by (intro conjI)
qed

end
